theory Spec2Isabelle
  imports Complex_Main "HOL-Library.Stream"
begin

section \<open>Python values and failures\<close>

text \<open>
  The module \<^verbatim>\<open>channels.py\<close> computes with Python floats. They are modelled as
  real numbers: rounding, overflow and the special values inf and nan are outside the
  model. Everything the interpreter raises on real arguments is a branch of the model:
  \<^verbatim>\<open>assert\<close> raises AssertionError with its message, \<^verbatim>\<open>math.log10\<close> and
  \<^verbatim>\<open>math.sqrt\<close> raise ValueError outside their domain, \<^verbatim>\<open>/\<close> raises
  ZeroDivisionError on a zero divisor, and an unbound name raises NameError.
\<close>

datatype py_error =
    AssertionError string
  | ValueError
  | ZeroDivisionError
  | NameError string

definition py_bind :: "py_error + 'a \<Rightarrow> ('a \<Rightarrow> py_error + 'b) \<Rightarrow> py_error + 'b" where
  "py_bind m f = (case m of Inl err \<Rightarrow> Inl err | Inr v \<Rightarrow> f v)"

definition log10 :: "real \<Rightarrow> py_error + real" where
  "log10 x = (if 0 < x then Inr (log 10 x) else Inl ValueError)"

definition py_sqrt :: "real \<Rightarrow> py_error + real" where
  "py_sqrt x = (if 0 \<le> x then Inr (sqrt x) else Inl ValueError)"

definition py_div :: "real \<Rightarrow> real \<Rightarrow> py_error + real" where
  "py_div a b = (if b = 0 then Inl ZeroDivisionError else Inr (a / b))"

definition py_pow :: "real \<Rightarrow> int \<Rightarrow> py_error + real" where
  \<comment> \<open>\<^verbatim>\<open>x ** n\<close> for a float \<open>x\<close> and an int \<open>n\<close>\<close>
  "py_pow x n =
     (if 0 \<le> n then Inr (x ^ nat n)
      else if x = 0 then Inl ZeroDivisionError
      else Inr (1 / x ^ nat (- n)))"

definition e :: real where
  "e = exp 1"

section \<open>The shared random source\<close>

text \<open>
  \<^verbatim>\<open>random()\<close> reads and advances the generator of the \<^verbatim>\<open>random\<close> module. The
  generator is the stream of the values it will return; a draw takes the head and leaves
  the tail.
\<close>

type_synonym random_source = "real stream"

definition random :: "random_source \<Rightarrow> real \<times> random_source" where
  "random src = (shd src, stl src)"

section \<open>AcousticChannel\<close>

record AcousticChannel =
  ac_k :: real
  ac_s :: real
  ac_w :: real

definition kvalues :: "real list" where
  "kvalues = [1.0, 1.5, 2.0]"

definition soundSpeed :: real where
  "soundSpeed = 1500"

definition AcousticChannel_init :: "real \<Rightarrow> real \<Rightarrow> real \<Rightarrow> py_error + AcousticChannel" where
  "AcousticChannel_init k s w =
     (if \<not> (k \<in> set kvalues) then Inl (AssertionError ''k = 1.0 or 1.5 or 2.0'')
      else if \<not> (s \<ge> 0 \<and> s \<le> 1) then Inl (AssertionError ''0 <= s <= 1'')
      else if \<not> (w \<ge> 0) then Inl (AssertionError ''wind speed must be positive'')
      else Inr \<lparr>ac_k = k, ac_s = s, ac_w = w\<rparr>)"

definition thorp :: "real \<Rightarrow> py_error + real" where
  "thorp frequency =
     (let f = frequency ^ 2 in
      py_bind
        (if f > 0.4 then
           py_bind (py_div (0.11 * f) (1 + f)) (\<lambda>t1.
           py_bind (py_div f (4100 + frequency)) (\<lambda>t2.
           Inr (t1 + 44 * t2 + (2.75 * (10 powi (- 4)) * f + 0.003))))
         else
           py_bind (py_div f (1 + f)) (\<lambda>t1.
           Inr (0.002 + 0.11 * t1 + 0.011 * f)))
        (\<lambda>atten. Inr (atten / 1000)))"

definition pathloss :: "AcousticChannel \<Rightarrow> real \<Rightarrow> real \<Rightarrow> py_error + real" where
  "pathloss self distance frequency =
     py_bind (log10 distance) (\<lambda>ld.
     py_bind (thorp frequency) (\<lambda>th.
     Inr (10.0 * ac_k self * ld + distance * th)))"

definition noise :: "AcousticChannel \<Rightarrow> real \<Rightarrow> py_error + real" where
  "noise self frequency =
     py_bind (log10 frequency) (\<lambda>l1.
     let nTurbulence = 10 powr ((17 - 30 * l1) * 0.1) in
     py_bind (log10 frequency) (\<lambda>l2.
     py_bind (log10 (frequency + 0.03)) (\<lambda>l3.
     let nShipping = 10 powr ((40 + 20 * (ac_s self - 0.5) + 26 * l2 - 60 * l3) * 0.1) in
     py_bind (py_sqrt (ac_w self)) (\<lambda>sw.
     py_bind (log10 frequency) (\<lambda>l4.
     py_bind (log10 (frequency + 0.4)) (\<lambda>l5.
     let nWind = 10 powr ((50 + 7.5 * sw + 20 * l4 - 40 * l5) * 0.1) in
     py_bind (log10 frequency) (\<lambda>l6.
     let nThermal = 10 powr ((20 * l6 - 15) * 0.1) in
     py_bind (log10 (nTurbulence + nShipping + nWind + nThermal)) (\<lambda>l7.
     Inr (10 * l7)))))))))"

definition AcousticChannel_snr_dB ::
  "AcousticChannel \<Rightarrow> real \<Rightarrow> real \<Rightarrow> real \<Rightarrow> int \<Rightarrow> real \<Rightarrow> py_error + real" where
  "AcousticChannel_snr_dB self distance frequency Pt psize noise_bw =
     py_bind (pathloss self distance frequency) (\<lambda>pl.
     py_bind (noise self frequency) (\<lambda>n.
     let nf = noise_bw * n in
     Inr (Pt - pl - nf)))"

text \<open>
  \<^verbatim>\<open>AcousticChannel.snr\<close> passes the name \<^verbatim>\<open>size\<close> to \<^verbatim>\<open>snr_dB\<close>. It is
  neither a parameter nor a local of the method, so it is looked up in the enclosing
  namespace \<open>env\<close> (the module's globals and the builtins). The method binds the local
  \<^verbatim>\<open>snr\<close> and has no \<^verbatim>\<open>return\<close>: when it completes, its value is \<^verbatim>\<open>None\<close>.
\<close>

definition module_env :: "string \<Rightarrow> int option" where
  \<comment> \<open>the module binds no integer: its globals are \<^verbatim>\<open>random\<close>, \<^verbatim>\<open>log10\<close>, \<^verbatim>\<open>sqrt\<close>,
      \<^verbatim>\<open>erfc\<close>, \<^verbatim>\<open>cos\<close>, \<^verbatim>\<open>pi\<close>, \<^verbatim>\<open>e\<close> and the three classes\<close>
  "module_env = (\<lambda>name. None)"

definition AcousticChannel_snr ::
  "(string \<Rightarrow> int option) \<Rightarrow> AcousticChannel \<Rightarrow> real \<Rightarrow> real \<Rightarrow> real \<Rightarrow> int \<Rightarrow> real
     \<Rightarrow> py_error + real option" where
  "AcousticChannel_snr env self distance frequency Pt psize noise_bw =
     (case env ''size'' of
        None \<Rightarrow> Inl (NameError ''size'')
      | Some size' \<Rightarrow>
          py_bind (AcousticChannel_snr_dB self distance frequency Pt size' noise_bw) (\<lambda>db.
          let snr = 10 powr (db / 10) in
          Inr None))"

definition AcousticChannel_per ::
  "(real \<Rightarrow> real) \<Rightarrow> AcousticChannel \<Rightarrow> real \<Rightarrow> real \<Rightarrow> real \<Rightarrow> int \<Rightarrow> real \<Rightarrow> py_error + real" where
  \<comment> \<open>\<open>erfc\<close> is \<^verbatim>\<open>math.erfc\<close>, a total function of the Python library\<close>
  "AcousticChannel_per erfc self distance frequency Pt psize noise_bw =
     py_bind (pathloss self distance frequency) (\<lambda>pl.
     py_bind (noise self frequency) (\<lambda>n.
     let nf = noise_bw * n;
         snrdB = Pt - pl - nf;
         snr = 10 powr (snrdB / 10) in
     py_bind (py_sqrt snr) (\<lambda>r.
     let ber = 0.5 * erfc r in
     py_bind (py_pow (1.0 - ber) (8 * psize)) (\<lambda>pw.
     Inr (1.0 - pw)))))"

definition AcousticChannel_perRF ::
  "AcousticChannel \<Rightarrow> real \<Rightarrow> real \<Rightarrow> real \<Rightarrow> int \<Rightarrow> real \<Rightarrow> py_error + real" where
  "AcousticChannel_perRF self distance frequency Pt psize noise_bw =
     (let f = frequency; d = distance in
      py_bind (pathloss self d f) (\<lambda>pl.
      py_bind (noise self f) (\<lambda>n.
      let nf = noise_bw * n;
          snrdB = Pt - pl - nf;
          snr = 10 powr (snrdB / 10) in
      py_bind (py_div snr (1 + snr)) (\<lambda>ratio.
      py_bind (py_sqrt ratio) (\<lambda>r.
      let ber = 0.5 * (1 - r) in
      py_bind (py_pow (1.0 - ber) (8 * psize)) (\<lambda>pw.
      Inr (1.0 - pw)))))))"

definition AcousticChannel_use ::
  "AcousticChannel \<Rightarrow> real \<Rightarrow> real \<Rightarrow> real \<Rightarrow> int \<Rightarrow> random_source
     \<Rightarrow> (py_error + bool) \<times> random_source" where
  \<comment> \<open>the result and the random source after the call; 2.35 is the default \<^verbatim>\<open>noise_bw\<close>\<close>
  "AcousticChannel_use self frequency power' distance packetSize src =
     (case AcousticChannel_perRF self distance frequency power' packetSize 2.35 of
        Inl err \<Rightarrow> (Inl err, src)
      | Inr per \<Rightarrow> (let (r, src') = random src in (Inr (\<not> (r < per)), src')))"

section \<open>OpticalChannel\<close>

record OpticalChannel =
  oc_c :: real
  oc_T :: real
  oc_S :: real
  oc_R :: real
  oc_Id :: real
  oc_Il :: real
  oc_Ar :: real
  oc_At :: real
  oc_bw :: real
  oc_theta :: real

definition q :: real where
  "q = 1.6 / 10 ^ 19"

definition K :: real where
  "K = 1.38 / 10 ^ 23"

definition OpticalChannel_init ::
  "real \<Rightarrow> real \<Rightarrow> real \<Rightarrow> real \<Rightarrow> real \<Rightarrow> real \<Rightarrow> real \<Rightarrow> real \<Rightarrow> real \<Rightarrow> real \<Rightarrow> OpticalChannel" where
  "OpticalChannel_init c T S R Id' Il Ar At bw theta =
     \<lparr>oc_c = c, oc_T = T, oc_S = S, oc_R = R, oc_Id = Id', oc_Il = Il,
      oc_Ar = Ar, oc_At = At, oc_bw = bw, oc_theta = theta\<rparr>"

definition OpticalChannel_snr ::
  "OpticalChannel \<Rightarrow> real \<Rightarrow> real \<Rightarrow> real \<Rightarrow> real \<Rightarrow> py_error + real" where
  "OpticalChannel_snr self P distance d beta =
     (let p = 2 * P * oc_Ar self * cos beta in
      py_bind (py_div p (pi * (distance ^ 2) * (1 - cos (oc_theta self)) + 2 * oc_At self)) (\<lambda>p.
      let p = p * (e powr (- oc_c self * d)) in
      py_bind (py_div (4 * K * oc_T self * oc_bw self) (oc_R self)) (\<lambda>thermalNoise.
      let currentNoise = 2 * q * (oc_Id self + oc_Il self) * oc_bw self in
      py_bind (py_div ((oc_S self * p) ^ 2) (currentNoise + thermalNoise)) (\<lambda>snr.
      Inr snr))))"

definition OpticalChannel_per ::
  "(real \<Rightarrow> real) \<Rightarrow> OpticalChannel \<Rightarrow> real \<Rightarrow> real \<Rightarrow> real \<Rightarrow> real \<Rightarrow> int \<Rightarrow> py_error + real" where
  "OpticalChannel_per erfc self P distance d beta psize =
     (let p = 2 * P * oc_Ar self * cos beta in
      py_bind (py_div p (pi * (distance ^ 2) * (1 - cos (oc_theta self)) + 2 * oc_At self)) (\<lambda>p.
      let p = p * (e powr (- oc_c self * d)) in
      py_bind (py_div (4 * K * oc_T self * oc_bw self) (oc_R self)) (\<lambda>thermalNoise.
      let currentNoise = 2 * q * (oc_Id self + oc_Il self) * oc_bw self in
      py_bind (py_div ((oc_S self * p) ^ 2) (currentNoise + thermalNoise)) (\<lambda>snr.
      py_bind (py_sqrt snr) (\<lambda>r.
      let ber = 0.5 * erfc r in
      py_bind (py_pow (1.0 - ber) (8 * psize)) (\<lambda>pw.
      let per = 1.0 - pw in
      Inr per))))))"

definition OpticalChannel_perRF ::
  "OpticalChannel \<Rightarrow> real \<Rightarrow> real \<Rightarrow> real \<Rightarrow> real \<Rightarrow> int \<Rightarrow> py_error + real" where
  "OpticalChannel_perRF self P distance d beta psize =
     (let p = 2 * P * oc_Ar self * cos beta in
      py_bind (py_div p (pi * (distance ^ 2) * (1 - cos (oc_theta self)) + 2 * oc_At self)) (\<lambda>p.
      let p = p * (e powr (- oc_c self * d)) in
      py_bind (py_div (4 * K * oc_T self * oc_bw self) (oc_R self)) (\<lambda>thermalNoise.
      let currentNoise = 2 * q * (oc_Id self + oc_Il self) * oc_bw self in
      py_bind (py_div ((oc_S self * p) ^ 2) (currentNoise + thermalNoise)) (\<lambda>snr.
      py_bind (py_div snr (1 + snr)) (\<lambda>ratio.
      py_bind (py_sqrt ratio) (\<lambda>r.
      let ber = 0.5 * (1 - r) in
      py_bind (py_pow (1.0 - ber) (8 * psize)) (\<lambda>pw.
      let per = 1.0 - pw in
      Inr per)))))))"

definition OpticalChannel_use ::
  "OpticalChannel \<Rightarrow> real \<Rightarrow> real \<Rightarrow> real \<Rightarrow> real \<Rightarrow> int \<Rightarrow> random_source
     \<Rightarrow> (py_error + bool) \<times> random_source" where
  "OpticalChannel_use self power' distance d beta psize src =
     (case OpticalChannel_perRF self power' distance d beta psize of
        Inl err \<Rightarrow> (Inl err, src)
      | Inr per \<Rightarrow> (let (r, src') = random src in (Inr (\<not> (r < per)), src')))"

section \<open>The two branches of \<^verbatim>\<open>thorp\<close>\<close>

text \<open>
  The value \<^verbatim>\<open>thorp\<close> returns on its branch \<open>f > 0.4\<close> and the one on its
  \<^verbatim>\<open>else\<close> branch, each with the final division by 1000, as functions of the
  frequency; lemma \<open>thorp_branches\<close> below relates them to \<open>thorp\<close>.
\<close>

definition thorp_high :: "real \<Rightarrow> real" where
  "thorp_high frequency =
     (let f = frequency ^ 2 in
      (0.11 * f / (1 + f) + 44 * (f / (4100 + frequency)) + (2.75 * (10 powi (- 4)) * f + 0.003)) / 1000)"

definition thorp_low :: "real \<Rightarrow> real" where
  "thorp_low frequency =
     (let f = frequency ^ 2 in
      (0.002 + 0.11 * (f / (1 + f)) + 0.011 * f) / 1000)"

section \<open>Closed forms of the packet error rate\<close>

text \<open>
  The value both classes return once the linear SNR is known: the bit error rate of BPSK
  (with additive white Gaussian noise, or with Rayleigh fading), aggregated over the
  \<open>8 psize\<close> bits of the packet. They only abbreviate the expressions of the methods in
  the lemmas below.
\<close>

definition per_awgn :: "(real \<Rightarrow> real) \<Rightarrow> real \<Rightarrow> int \<Rightarrow> real" where
  "per_awgn erfc snr psize = 1 - (1 - 0.5 * erfc (sqrt snr)) ^ nat (8 * psize)"

definition per_rayleigh :: "real \<Rightarrow> int \<Rightarrow> real" where
  "per_rayleigh snr psize = 1 - (1 - 0.5 * (1 - sqrt (snr / (1 + snr)))) ^ nat (8 * psize)"

section \<open>Basic facts\<close>

lemma e_powr: "e powr x = exp x"
  by (simp add: e_def powr_def)

lemma one_plus_square_nonzero: "1 + (x::real)\<^sup>2 \<noteq> 0"
proof -
  have "0 \<le> x\<^sup>2" by simp
  then show ?thesis by linarith
qed

lemma thorp_eq:
  "thorp fr =
     (if fr\<^sup>2 > 0.4 then
        (if fr = - 4100 then Inl ZeroDivisionError
         else Inr ((0.11 * fr\<^sup>2 / (1 + fr\<^sup>2) + 44 * fr\<^sup>2 / (4100 + fr)
                    + 0.000275 * fr\<^sup>2 + 0.003) / 1000))
      else Inr ((0.002 + 0.11 * fr\<^sup>2 / (1 + fr\<^sup>2) + 0.011 * fr\<^sup>2) / 1000))"
  using one_plus_square_nonzero [of fr]
  by (auto simp: thorp_def Let_def py_bind_def py_div_def power_int_minus field_simps)

subsection \<open>The acoustic channel returns on positive distance and frequency\<close>

lemma noise_returns:
  assumes "0 < fr" "0 \<le> ac_w self"
  shows "\<exists>N. noise self fr = Inr N"
proof -
  have pos: "0 < a + b + c + d" if "0 < a" "0 < b" "0 < c" "0 < d" for a b c d :: real
    using that by linarith
  show ?thesis
    using assms
    by (simp add: noise_def log10_def py_sqrt_def Let_def py_bind_def pos)
qed

lemma pos4:
  fixes a b c d :: real
  assumes "0 \<le> a" "0 \<le> b" "0 \<le> c" "0 < d"
  shows "0 < (a + b + c + d) / 1000"
proof -
  have "0 < a + b + c + d" using assms by linarith
  then show ?thesis by simp
qed

lemma pos3:
  fixes a b c :: real
  assumes "0 < a" "0 \<le> b" "0 \<le> c"
  shows "0 < (a + b + c) / 1000"
proof -
  have "0 < a + b + c" using assms by linarith
  then show ?thesis by simp
qed

lemma thorp_positive:
  assumes "0 < fr"
  shows "\<exists>t. thorp fr = Inr t \<and> 0 < t"
proof -
  have sq: "0 < fr\<^sup>2" using assms by simp
  have a: "0 \<le> 0.11 * fr\<^sup>2 / (1 + fr\<^sup>2)" by simp
  have b: "0 \<le> 44 * fr\<^sup>2 / (4100 + fr)" using assms by simp
  have c: "0 \<le> 0.000275 * fr\<^sup>2" "0 \<le> 0.011 * fr\<^sup>2" by simp_all
  have ne: "fr \<noteq> - 4100" using assms by simp
  show ?thesis
  proof (cases "fr\<^sup>2 > 0.4")
    case True
    then have "thorp fr = Inr ((0.11 * fr\<^sup>2 / (1 + fr\<^sup>2) + 44 * fr\<^sup>2 / (4100 + fr)
                    + 0.000275 * fr\<^sup>2 + 0.003) / 1000)"
      using ne by (simp add: thorp_eq)
    moreover have "0 < (0.11 * fr\<^sup>2 / (1 + fr\<^sup>2) + 44 * fr\<^sup>2 / (4100 + fr)
                    + 0.000275 * fr\<^sup>2 + 0.003) / 1000"
      by (rule pos4 [OF a b c(1)]) simp
    ultimately show ?thesis by blast
  next
    case False
    then have "thorp fr = Inr ((0.002 + 0.11 * fr\<^sup>2 / (1 + fr\<^sup>2) + 0.011 * fr\<^sup>2) / 1000)"
      by (simp add: thorp_eq)
    moreover have "0 < (0.002 + 0.11 * fr\<^sup>2 / (1 + fr\<^sup>2) + 0.011 * fr\<^sup>2) / 1000"
      by (rule pos3 [OF _ a c(2)]) simp
    ultimately show ?thesis by blast
  qed
qed

lemma acoustic_snr_dB_returns:
  assumes "0 < fr" "0 \<le> ac_w self"
  shows "\<exists>t N. 0 < t \<and>
     (\<forall>d Pt n nb. 0 < d \<longrightarrow>
        AcousticChannel_snr_dB self d fr Pt n nb
          = Inr (Pt - (10 * ac_k self * log 10 d + d * t) - nb * N))"
proof -
  obtain t where t: "thorp fr = Inr t" "0 < t" using thorp_positive [OF assms(1)] by blast
  obtain N where N: "noise self fr = Inr N" using noise_returns [OF assms] by blast
  have "\<forall>d Pt n nb. 0 < d \<longrightarrow>
        AcousticChannel_snr_dB self d fr Pt n nb
          = Inr (Pt - (10 * ac_k self * log 10 d + d * t) - nb * N)"
    by (simp add: AcousticChannel_snr_dB_def pathloss_def log10_def t N py_bind_def Let_def)
  with t(2) show ?thesis by blast
qed

lemma acoustic_per_snr_dB:
  "0 \<le> n \<Longrightarrow> AcousticChannel_per erfc self d fr Pt n nb =
     py_bind (AcousticChannel_snr_dB self d fr Pt n nb) (\<lambda>db.
       Inr (1 - (1 - 0.5 * erfc (sqrt (10 powr (db / 10)))) ^ nat (8 * n)))"
  by (simp add: AcousticChannel_per_def AcousticChannel_snr_dB_def py_bind_def Let_def
      py_sqrt_def py_pow_def split: sum.splits)

lemma acoustic_perRF_snr_dB:
  "0 \<le> n \<Longrightarrow> AcousticChannel_perRF self d fr Pt n nb =
     py_bind (AcousticChannel_snr_dB self d fr Pt n nb) (\<lambda>db.
       Inr (1 - (1 - 0.5 * (1 - sqrt (10 powr (db / 10) / (1 + 10 powr (db / 10))))) ^ nat (8 * n)))"
proof -
  have ne: "1 + 10 powr x \<noteq> (0::real)" for x :: real
    using powr_gt_zero [of 10 x] by linarith
  have nn: "0 \<le> 10 powr x / (1 + 10 powr x)" for x :: real
    by (simp add: add_nonneg_nonneg)
  assume "0 \<le> n"
  then show ?thesis
    by (simp add: AcousticChannel_perRF_def AcousticChannel_snr_dB_def py_bind_def Let_def
        py_sqrt_def py_pow_def py_div_def ne nn split: sum.splits)
qed


lemma agg_base_mono:
  fixes b1 b2 :: real
  shows "0 \<le> b2 \<Longrightarrow> b2 \<le> b1 \<Longrightarrow> 1 - b1 ^ m \<le> 1 - b2 ^ m"
  by (simp add: power_mono)

lemma agg_exp_mono:
  fixes b :: real
  shows "0 \<le> b \<Longrightarrow> b \<le> 1 \<Longrightarrow> m1 \<le> m2 \<Longrightarrow> 1 - b ^ m1 \<le> 1 - b ^ m2"
  by (simp add: power_decreasing)

lemma agg_range:
  fixes b :: real
  shows "0 \<le> b \<Longrightarrow> b \<le> 1 \<Longrightarrow> 0 \<le> 1 - b ^ m \<and> 1 - b ^ m \<le> 1"
  by (simp add: power_le_one)

lemma rayleigh_root_range:
  assumes "0 \<le> (s::real)"
  shows "0 \<le> sqrt (s / (1 + s))" "sqrt (s / (1 + s)) \<le> 1"
proof -
  show "0 \<le> sqrt (s / (1 + s))" using assms by simp
  have "s / (1 + s) \<le> 1" using assms by (simp add: field_simps)
  then show "sqrt (s / (1 + s)) \<le> 1" by simp
qed

lemma rayleigh_root_mono:
  assumes "0 \<le> (s2::real)" "s2 \<le> s1"
  shows "sqrt (s2 / (1 + s2)) \<le> sqrt (s1 / (1 + s1))"
proof -
  have "s2 / (1 + s2) \<le> s1 / (1 + s1)"
    using assms by (simp add: field_simps)
  then show ?thesis by simp
qed

lemma half_base:
  fixes r :: real
  assumes "0 \<le> r" "r \<le> 1"
  shows "0 \<le> 1 - 0.5 * (1 - r)" "1 - 0.5 * (1 - r) \<le> 1"
  using assms by simp_all

lemma half_base_mono:
  fixes r1 r2 :: real
  assumes "r2 \<le> r1"
  shows "1 - 0.5 * (1 - r2) \<le> 1 - 0.5 * (1 - r1)"
  using assms by simp

lemma per_rayleigh_range:
  assumes "0 \<le> s"
  shows "0 \<le> per_rayleigh s n" "per_rayleigh s n \<le> 1"
proof -
  have b: "0 \<le> 1 - 0.5 * (1 - sqrt (s / (1 + s)))" "1 - 0.5 * (1 - sqrt (s / (1 + s))) \<le> 1"
    using half_base [OF rayleigh_root_range [OF assms]] .
  show "0 \<le> per_rayleigh s n" "per_rayleigh s n \<le> 1"
    unfolding per_rayleigh_def using agg_range [OF b] by simp_all
qed

lemma per_rayleigh_mono_snr:
  assumes "0 \<le> s2" "s2 \<le> s1"
  shows "per_rayleigh s1 n \<le> per_rayleigh s2 n"
proof -
  have "0 \<le> 1 - 0.5 * (1 - sqrt (s2 / (1 + s2)))"
    using half_base(1) [OF rayleigh_root_range [OF assms(1)]] .
  moreover have "1 - 0.5 * (1 - sqrt (s2 / (1 + s2))) \<le> 1 - 0.5 * (1 - sqrt (s1 / (1 + s1)))"
    using half_base_mono [OF rayleigh_root_mono [OF assms]] .
  ultimately show ?thesis
    unfolding per_rayleigh_def by (rule agg_base_mono)
qed

lemma per_rayleigh_mono_psize:
  assumes "0 \<le> s" "0 \<le> n1" "n1 \<le> n2"
  shows "per_rayleigh s n1 \<le> per_rayleigh s n2"
proof -
  have b: "0 \<le> 1 - 0.5 * (1 - sqrt (s / (1 + s)))" "1 - 0.5 * (1 - sqrt (s / (1 + s))) \<le> 1"
    using half_base [OF rayleigh_root_range [OF assms(1)]] .
  have "nat (8 * n1) \<le> nat (8 * n2)" using assms by simp
  then show ?thesis
    unfolding per_rayleigh_def by (rule agg_exp_mono [OF b])
qed

lemma per_awgn_range:
  assumes "\<forall>x. 0 \<le> x \<longrightarrow> 0 \<le> erfc x \<and> erfc x \<le> 2" "0 \<le> s"
  shows "0 \<le> per_awgn erfc s n" "per_awgn erfc s n \<le> 1"
proof -
  have "0 \<le> erfc (sqrt s) \<and> erfc (sqrt s) \<le> 2" using assms by simp
  then have b: "0 \<le> 1 - 0.5 * erfc (sqrt s)" "1 - 0.5 * erfc (sqrt s) \<le> 1" by simp_all
  show "0 \<le> per_awgn erfc s n" "per_awgn erfc s n \<le> 1"
    unfolding per_awgn_def using agg_range [OF b] by simp_all
qed

lemma per_awgn_mono_snr:
  assumes "\<forall>x. 0 \<le> x \<longrightarrow> 0 \<le> erfc x \<and> erfc x \<le> 2"
    and "\<forall>x y. 0 \<le> x \<and> x \<le> y \<longrightarrow> erfc y \<le> erfc x"
    and "0 \<le> s2" "s2 \<le> s1"
  shows "per_awgn erfc s1 n \<le> per_awgn erfc s2 n"
proof -
  have "0 \<le> sqrt s2 \<and> sqrt s2 \<le> sqrt s1" using assms(3,4) by simp
  then have "erfc (sqrt s1) \<le> erfc (sqrt s2)" using assms(2) by blast
  then have "1 - 0.5 * erfc (sqrt s2) \<le> 1 - 0.5 * erfc (sqrt s1)" by simp
  moreover have "0 \<le> erfc (sqrt s2) \<and> erfc (sqrt s2) \<le> 2" using assms(1,3) by simp
  then have "0 \<le> 1 - 0.5 * erfc (sqrt s2)" by simp
  ultimately show ?thesis
    unfolding per_awgn_def by (intro agg_base_mono)
qed

lemma per_awgn_mono_psize:
  assumes "\<forall>x. 0 \<le> x \<longrightarrow> 0 \<le> erfc x \<and> erfc x \<le> 2"
    and "0 \<le> s" "0 \<le> n1" "n1 \<le> n2"
  shows "per_awgn erfc s n1 \<le> per_awgn erfc s n2"
proof -
  have "0 \<le> erfc (sqrt s) \<and> erfc (sqrt s) \<le> 2" using assms(1,2) by simp
  then have b: "0 \<le> 1 - 0.5 * erfc (sqrt s)" "1 - 0.5 * erfc (sqrt s) \<le> 1" by simp_all
  have "nat (8 * n1) \<le> nat (8 * n2)" using assms by simp
  then show ?thesis
    unfolding per_awgn_def by (rule agg_exp_mono [OF b])
qed

lemma init_valid:
  assumes "AcousticChannel_init k s w = Inr self"
  shows "0 < ac_k self" "0 \<le> ac_w self"
  using assms
  by (auto simp: AcousticChannel_init_def kvalues_def split: if_splits)

lemma acoustic_per_values:
  assumes "0 < fr" "0 \<le> ac_w self"
  shows "\<exists>t N. 0 < t \<and>
     (\<forall>d Pt n nb. 0 < d \<and> 0 \<le> n \<longrightarrow>
        AcousticChannel_per erfc self d fr Pt n nb =
          Inr (per_awgn erfc (10 powr ((Pt - (10 * ac_k self * log 10 d + d * t) - nb * N) / 10)) n) \<and>
        AcousticChannel_perRF self d fr Pt n nb =
          Inr (per_rayleigh (10 powr ((Pt - (10 * ac_k self * log 10 d + d * t) - nb * N) / 10)) n))"
proof -
  obtain t N where tN: "0 < t"
    "\<forall>d Pt n nb. 0 < d \<longrightarrow> AcousticChannel_snr_dB self d fr Pt n nb
          = Inr (Pt - (10 * ac_k self * log 10 d + d * t) - nb * N)"
    using acoustic_snr_dB_returns [OF assms] by blast
  have "\<forall>d Pt n nb. 0 < d \<and> 0 \<le> n \<longrightarrow>
        AcousticChannel_per erfc self d fr Pt n nb =
          Inr (per_awgn erfc (10 powr ((Pt - (10 * ac_k self * log 10 d + d * t) - nb * N) / 10)) n) \<and>
        AcousticChannel_perRF self d fr Pt n nb =
          Inr (per_rayleigh (10 powr ((Pt - (10 * ac_k self * log 10 d + d * t) - nb * N) / 10)) n)"
    using tN(2)
    by (simp add: acoustic_per_snr_dB acoustic_perRF_snr_dB py_bind_def per_awgn_def per_rayleigh_def)
  with tN(1) show ?thesis by blast
qed

lemma acoustic_snr_antimono:
  fixes kk t :: real
  assumes "0 < kk" "0 < t" "0 < d1" "d1 \<le> d2"
  shows "10 powr ((Pt - (10 * kk * log 10 d2 + d2 * t) - x) / 10)
       \<le> 10 powr ((Pt - (10 * kk * log 10 d1 + d1 * t) - x) / 10)"
proof -
  have "log 10 d1 \<le> log 10 d2" using assms(3,4) by simp
  then have "10 * kk * log 10 d1 \<le> 10 * kk * log 10 d2"
    using assms(1) by simp
  moreover have "d1 * t \<le> d2 * t" using assms(2,4) by simp
  ultimately have "(Pt - (10 * kk * log 10 d2 + d2 * t) - x) / 10
      \<le> (Pt - (10 * kk * log 10 d1 + d1 * t) - x) / 10" by simp
  then show ?thesis by simp
qed

subsection \<open>The optical channel\<close>

lemma optical_per_bind:
  "OpticalChannel_per erfc self P distance d beta psize =
     py_bind (OpticalChannel_snr self P distance d beta) (\<lambda>snr.
     py_bind (py_sqrt snr) (\<lambda>r.
     py_bind (py_pow (1 - 0.5 * erfc r) (8 * psize)) (\<lambda>pw. Inr (1 - pw))))"
  by (simp add: OpticalChannel_per_def OpticalChannel_snr_def Let_def py_bind_def
      split: sum.splits)

lemma optical_perRF_bind:
  "OpticalChannel_perRF self P distance d beta psize =
     py_bind (OpticalChannel_snr self P distance d beta) (\<lambda>snr.
     py_bind (py_div snr (1 + snr)) (\<lambda>ratio.
     py_bind (py_sqrt ratio) (\<lambda>r.
     py_bind (py_pow (1 - 0.5 * (1 - r)) (8 * psize)) (\<lambda>pw. Inr (1 - pw)))))"
  by (simp add: OpticalChannel_perRF_def OpticalChannel_snr_def Let_def py_bind_def
      split: sum.splits)

lemma optical_per_values:
  assumes "OpticalChannel_snr self P distance d beta = Inr s" "0 \<le> s" "0 \<le> n"
  shows "OpticalChannel_per erfc self P distance d beta n = Inr (per_awgn erfc s n)"
    "OpticalChannel_perRF self P distance d beta n = Inr (per_rayleigh s n)"
proof -
  have ne: "1 + s \<noteq> 0" using assms(2) by linarith
  have nn: "0 \<le> s / (1 + s)" using assms(2) by simp
  show "OpticalChannel_per erfc self P distance d beta n = Inr (per_awgn erfc s n)"
    using assms(2,3)
    by (simp add: optical_per_bind assms(1) per_awgn_def py_bind_def py_sqrt_def py_pow_def)
  show "OpticalChannel_perRF self P distance d beta n = Inr (per_rayleigh s n)"
    using assms(3) ne nn
    by (simp add: optical_perRF_bind assms(1) per_rayleigh_def py_bind_def py_sqrt_def
        py_pow_def py_div_def)
qed

lemma square_quotient_antimono:
  fixes a D1 D2 :: real
  assumes "0 < D1" "D1 \<le> D2"
  shows "(a / D2)\<^sup>2 \<le> (a / D1)\<^sup>2"
proof -
  have "\<bar>a\<bar> / D2 \<le> \<bar>a\<bar> / D1"
    using assms by (intro divide_left_mono) (simp_all add: mult_pos_pos)
  then have "\<bar>a / D2\<bar> \<le> \<bar>a / D1\<bar>" using assms by simp
  then show ?thesis by (simp only: abs_le_square_iff)
qed

lemma optical_snr_antimono:
  assumes D1: "0 < pi * d1\<^sup>2 * (1 - cos (oc_theta self)) + 2 * oc_At self"
    and d: "0 < d1" "d1 \<le> d2"
    and R: "oc_R self \<noteq> 0"
    and noise: "0 < 2 * q * (oc_Id self + oc_Il self) * oc_bw self
                  + 4 * K * oc_T self * oc_bw self / oc_R self"
  shows "\<exists>s1 s2. OpticalChannel_snr self P d1 d beta = Inr s1 \<and>
                 OpticalChannel_snr self P d2 d beta = Inr s2 \<and> 0 \<le> s2 \<and> s2 \<le> s1"
proof -
  define D where "D x = pi * x\<^sup>2 * (1 - cos (oc_theta self)) + 2 * oc_At self" for x
  define Nz where "Nz = 2 * q * (oc_Id self + oc_Il self) * oc_bw self
                  + 4 * K * oc_T self * oc_bw self / oc_R self"
  define a where "a = oc_S self * (2 * P * oc_Ar self * cos beta * exp (- (oc_c self * d)))"
  have "d1\<^sup>2 \<le> d2\<^sup>2" using d by (simp add: power_mono)
  moreover have "0 \<le> 1 - cos (oc_theta self)" by simp
  ultimately have "pi * d1\<^sup>2 * (1 - cos (oc_theta self)) \<le> pi * d2\<^sup>2 * (1 - cos (oc_theta self))"
    by (simp add: mult_right_mono)
  then have D12: "D1' \<le> D2'" if "D1' = D d1" "D2' = D d2" for D1' D2'
    using that by (simp add: D_def)
  have Dpos: "0 < D d1" using D1 by (simp add: D_def)
  have D2pos: "0 < D d2" using Dpos D12 [OF refl refl] by linarith
  have snr: "OpticalChannel_snr self P x d beta = Inr ((a / D x)\<^sup>2 / Nz)" if "0 < D x" for x
    using that R noise
    by (simp add: OpticalChannel_snr_def Let_def py_bind_def py_div_def e_powr D_def Nz_def a_def)
  have "(a / D d2)\<^sup>2 \<le> (a / D d1)\<^sup>2"
    using square_quotient_antimono [OF Dpos D12 [OF refl refl]] .
  then have "(a / D d2)\<^sup>2 / Nz \<le> (a / D d1)\<^sup>2 / Nz"
    using noise by (simp add: Nz_def divide_right_mono)
  moreover have "0 \<le> (a / D d2)\<^sup>2 / Nz" using noise by (simp add: Nz_def)
  ultimately show ?thesis using snr [OF Dpos] snr [OF D2pos] by blast
qed

subsection \<open>Monotonicity of the four packet error rates\<close>

lemma acoustic_distance_mono:
  assumes "\<forall>x. 0 \<le> x \<longrightarrow> 0 \<le> erfc x \<and> erfc x \<le> 2"
    and "\<forall>x y. 0 \<le> x \<and> x \<le> y \<longrightarrow> erfc y \<le> erfc x"
  shows "AcousticChannel_init k s w = Inr ach \<and> 0 < frequency \<and> 0 < d1 \<and> d1 \<le> d2 \<and> 0 \<le> psize \<longrightarrow>
      (\<exists>p1 p2. AcousticChannel_per erfc ach d1 frequency Pt psize nb = Inr p1 \<and>
               AcousticChannel_per erfc ach d2 frequency Pt psize nb = Inr p2 \<and> p1 \<le> p2) \<and>
      (\<exists>p1 p2. AcousticChannel_perRF ach d1 frequency Pt psize nb = Inr p1 \<and>
               AcousticChannel_perRF ach d2 frequency Pt psize nb = Inr p2 \<and> p1 \<le> p2)"
proof (intro impI, elim conjE)
  assume h: "AcousticChannel_init k s w = Inr ach" "0 < frequency" "0 < d1" "d1 \<le> d2" "0 \<le> psize"
  have d2: "0 < d2" using h(3,4) by linarith
  note v = init_valid [OF h(1)]
  obtain t N where tN: "0 < t"
    "\<forall>d Pt n nb. 0 < d \<and> 0 \<le> n \<longrightarrow>
        AcousticChannel_per erfc ach d frequency Pt n nb =
          Inr (per_awgn erfc (10 powr ((Pt - (10 * ac_k ach * log 10 d + d * t) - nb * N) / 10)) n) \<and>
        AcousticChannel_perRF ach d frequency Pt n nb =
          Inr (per_rayleigh (10 powr ((Pt - (10 * ac_k ach * log 10 d + d * t) - nb * N) / 10)) n)"
    using acoustic_per_values [OF h(2) v(2)] by blast
  let ?s1 = "10 powr ((Pt - (10 * ac_k ach * log 10 d1 + d1 * t) - nb * N) / 10)"
  let ?s2 = "10 powr ((Pt - (10 * ac_k ach * log 10 d2 + d2 * t) - nb * N) / 10)"
  have le: "?s2 \<le> ?s1" using acoustic_snr_antimono [OF v(1) tN(1) h(3,4)] .
  have nn: "0 \<le> ?s2" by simp
  have e1: "AcousticChannel_per erfc ach d1 frequency Pt psize nb = Inr (per_awgn erfc ?s1 psize)"
    "AcousticChannel_perRF ach d1 frequency Pt psize nb = Inr (per_rayleigh ?s1 psize)"
    using tN(2) h(3,5) by blast+
  have e2: "AcousticChannel_per erfc ach d2 frequency Pt psize nb = Inr (per_awgn erfc ?s2 psize)"
    "AcousticChannel_perRF ach d2 frequency Pt psize nb = Inr (per_rayleigh ?s2 psize)"
    using tN(2) d2 h(5) by blast+
  show "(\<exists>p1 p2. AcousticChannel_per erfc ach d1 frequency Pt psize nb = Inr p1 \<and>
               AcousticChannel_per erfc ach d2 frequency Pt psize nb = Inr p2 \<and> p1 \<le> p2) \<and>
      (\<exists>p1 p2. AcousticChannel_perRF ach d1 frequency Pt psize nb = Inr p1 \<and>
               AcousticChannel_perRF ach d2 frequency Pt psize nb = Inr p2 \<and> p1 \<le> p2)"
    using e1 e2 per_awgn_mono_snr [OF assms nn le] per_rayleigh_mono_snr [OF nn le] by blast
qed

lemma acoustic_psize_mono:
  assumes "\<forall>x. 0 \<le> x \<longrightarrow> 0 \<le> erfc x \<and> erfc x \<le> 2"
  shows "AcousticChannel_init k s w = Inr ach \<and> 0 < frequency \<and> 0 < distance \<and> 0 \<le> n1 \<and> n1 \<le> n2 \<longrightarrow>
      (\<exists>p1 p2. AcousticChannel_per erfc ach distance frequency Pt n1 nb = Inr p1 \<and>
               AcousticChannel_per erfc ach distance frequency Pt n2 nb = Inr p2 \<and> p1 \<le> p2) \<and>
      (\<exists>p1 p2. AcousticChannel_perRF ach distance frequency Pt n1 nb = Inr p1 \<and>
               AcousticChannel_perRF ach distance frequency Pt n2 nb = Inr p2 \<and> p1 \<le> p2)"
proof (intro impI, elim conjE)
  assume h: "AcousticChannel_init k s w = Inr ach" "0 < frequency" "0 < distance" "0 \<le> n1" "n1 \<le> n2"
  have n2: "0 \<le> n2" using h(4,5) by linarith
  note v = init_valid [OF h(1)]
  obtain t N where tN: "0 < t"
    "\<forall>d Pt n nb. 0 < d \<and> 0 \<le> n \<longrightarrow>
        AcousticChannel_per erfc ach d frequency Pt n nb =
          Inr (per_awgn erfc (10 powr ((Pt - (10 * ac_k ach * log 10 d + d * t) - nb * N) / 10)) n) \<and>
        AcousticChannel_perRF ach d frequency Pt n nb =
          Inr (per_rayleigh (10 powr ((Pt - (10 * ac_k ach * log 10 d + d * t) - nb * N) / 10)) n)"
    using acoustic_per_values [OF h(2) v(2)] by blast
  let ?s = "10 powr ((Pt - (10 * ac_k ach * log 10 distance + distance * t) - nb * N) / 10)"
  have nn: "0 \<le> ?s" by simp
  have e1: "AcousticChannel_per erfc ach distance frequency Pt n1 nb = Inr (per_awgn erfc ?s n1)"
    "AcousticChannel_perRF ach distance frequency Pt n1 nb = Inr (per_rayleigh ?s n1)"
    using tN(2) h(3,4) by blast+
  have e2: "AcousticChannel_per erfc ach distance frequency Pt n2 nb = Inr (per_awgn erfc ?s n2)"
    "AcousticChannel_perRF ach distance frequency Pt n2 nb = Inr (per_rayleigh ?s n2)"
    using tN(2) h(3) n2 by blast+
  show "(\<exists>p1 p2. AcousticChannel_per erfc ach distance frequency Pt n1 nb = Inr p1 \<and>
               AcousticChannel_per erfc ach distance frequency Pt n2 nb = Inr p2 \<and> p1 \<le> p2) \<and>
      (\<exists>p1 p2. AcousticChannel_perRF ach distance frequency Pt n1 nb = Inr p1 \<and>
               AcousticChannel_perRF ach distance frequency Pt n2 nb = Inr p2 \<and> p1 \<le> p2)"
    using e1 e2 per_awgn_mono_psize [OF assms nn h(4,5)] per_rayleigh_mono_psize [OF nn h(4,5)]
    by blast
qed

lemma optical_distance_mono:
  assumes "\<forall>x. 0 \<le> x \<longrightarrow> 0 \<le> erfc x \<and> erfc x \<le> 2"
    and "\<forall>x y. 0 \<le> x \<and> x \<le> y \<longrightarrow> erfc y \<le> erfc x"
  shows "0 < pi * d1\<^sup>2 * (1 - cos (oc_theta och)) + 2 * oc_At och \<and> oc_R och \<noteq> 0 \<and>
     0 < 2 * q * (oc_Id och + oc_Il och) * oc_bw och + 4 * K * oc_T och * oc_bw och / oc_R och \<and>
     0 < d1 \<and> d1 \<le> d2 \<and> 0 \<le> psize \<longrightarrow>
      (\<exists>p1 p2. OpticalChannel_per erfc och P d1 d beta psize = Inr p1 \<and>
               OpticalChannel_per erfc och P d2 d beta psize = Inr p2 \<and> p1 \<le> p2) \<and>
      (\<exists>p1 p2. OpticalChannel_perRF och P d1 d beta psize = Inr p1 \<and>
               OpticalChannel_perRF och P d2 d beta psize = Inr p2 \<and> p1 \<le> p2)"
proof (intro impI, elim conjE)
  assume h: "0 < pi * d1\<^sup>2 * (1 - cos (oc_theta och)) + 2 * oc_At och" "oc_R och \<noteq> 0"
    "0 < 2 * q * (oc_Id och + oc_Il och) * oc_bw och + 4 * K * oc_T och * oc_bw och / oc_R och"
    "0 < d1" "d1 \<le> d2" "0 \<le> psize"
  obtain s1 s2 where s: "OpticalChannel_snr och P d1 d beta = Inr s1"
    "OpticalChannel_snr och P d2 d beta = Inr s2" "0 \<le> s2" "s2 \<le> s1"
    using optical_snr_antimono [OF h(1) h(4,5) h(2,3)] by blast
  have s1: "0 \<le> s1" using s(3,4) by linarith
  show "(\<exists>p1 p2. OpticalChannel_per erfc och P d1 d beta psize = Inr p1 \<and>
               OpticalChannel_per erfc och P d2 d beta psize = Inr p2 \<and> p1 \<le> p2) \<and>
      (\<exists>p1 p2. OpticalChannel_perRF och P d1 d beta psize = Inr p1 \<and>
               OpticalChannel_perRF och P d2 d beta psize = Inr p2 \<and> p1 \<le> p2)"
    using optical_per_values [OF s(1) s1 h(6)] optical_per_values [OF s(2) s(3) h(6)]
      per_awgn_mono_snr [OF assms s(3,4)] per_rayleigh_mono_snr [OF s(3,4)]
    by blast
qed

lemma optical_psize_mono:
  assumes "\<forall>x. 0 \<le> x \<longrightarrow> 0 \<le> erfc x \<and> erfc x \<le> 2"
  shows "OpticalChannel_snr och P distance d beta = Inr snr \<and> 0 \<le> snr \<and> 0 \<le> n1 \<and> n1 \<le> n2 \<longrightarrow>
      (\<exists>p1 p2. OpticalChannel_per erfc och P distance d beta n1 = Inr p1 \<and>
               OpticalChannel_per erfc och P distance d beta n2 = Inr p2 \<and> p1 \<le> p2) \<and>
      (\<exists>p1 p2. OpticalChannel_perRF och P distance d beta n1 = Inr p1 \<and>
               OpticalChannel_perRF och P distance d beta n2 = Inr p2 \<and> p1 \<le> p2)"
proof (intro impI, elim conjE)
  assume h: "OpticalChannel_snr och P distance d beta = Inr snr" "0 \<le> snr" "0 \<le> n1" "n1 \<le> n2"
  have n2: "0 \<le> n2" using h(3,4) by linarith
  show "(\<exists>p1 p2. OpticalChannel_per erfc och P distance d beta n1 = Inr p1 \<and>
               OpticalChannel_per erfc och P distance d beta n2 = Inr p2 \<and> p1 \<le> p2) \<and>
      (\<exists>p1 p2. OpticalChannel_perRF och P distance d beta n1 = Inr p1 \<and>
               OpticalChannel_perRF och P distance d beta n2 = Inr p2 \<and> p1 \<le> p2)"
    using optical_per_values [OF h(1,2,3)] optical_per_values [OF h(1,2) n2]
      per_awgn_mono_psize [OF assms h(2,3,4)] per_rayleigh_mono_psize [OF h(2,3,4)]
    by blast
qed

subsection \<open>The branch boundary of \<^verbatim>\<open>thorp\<close>\<close>

lemma thorp_branches:
  "thorp fr =
     (if fr\<^sup>2 > 0.4 then (if fr = - 4100 then Inl ZeroDivisionError else Inr (thorp_high fr))
      else Inr (thorp_low fr))"
  using one_plus_square_nonzero [of fr]
  by (auto simp: thorp_def thorp_high_def thorp_low_def Let_def py_bind_def py_div_def)

lemma boundary_bounds:
  assumes "fr\<^sup>2 = (0.4::real)"
  shows "- 1 < fr" "fr < 1"
proof -
  have "fr\<^sup>2 < 1\<^sup>2" using assms by simp
  then show "fr < 1" by (rule power2_less_imp_less) simp
  have "(- fr)\<^sup>2 < 1\<^sup>2" using assms by simp
  then have "- fr < 1" by (rule power2_less_imp_less) simp
  then show "- 1 < fr" by simp
qed

lemma thorp_gap_linear:
  fixes t :: real
  assumes "0.0000975 < t"
  shows "(0.002 + 0.11 * (0.4 / (1 + 0.4)) + 0.011 * 0.4) / 1000 + 1 / 10 ^ 6
       < (0.11 * 0.4 / (1 + 0.4) + 44 * t + (2.75 * (10 powi (- 4)) * 0.4 + 0.003)) / 1000"
  using assms by (simp add: power_int_minus)

lemma thorp_branch_gap:
  assumes "fr\<^sup>2 = (0.4::real)"
  shows "thorp_low fr + 1 / 10 ^ 6 < thorp_high fr"
proof -
  note b = boundary_bounds [OF assms]
  have pos: "0 < 4100 + fr" using b by linarith
  have "0.0000975 * (4100 + fr) < 0.4" using b by simp
  then have "0.0000975 < 0.4 / (4100 + fr)"
    using pos by (simp only: pos_less_divide_eq)
  then show ?thesis
    unfolding thorp_high_def thorp_low_def Let_def assms by (rule thorp_gap_linear)
qed


lemma thorp_high_upper_linear:
  fixes t :: real
  assumes "t < 0.0001"
  shows "(0.11 * 0.4 / (1 + 0.4) + 44 * t + (2.75 * (10 powi (- 4)) * 0.4 + 0.003)) / 1000 < 4 / 10 ^ 5"
  using assms by (simp add: power_int_minus)

lemma thorp_high_boundary_upper:
  assumes "fr\<^sup>2 = (0.4::real)"
  shows "thorp_high fr < 4 / 10 ^ 5"
proof -
  note b = boundary_bounds [OF assms]
  have pos: "0 < 4100 + fr" using b by linarith
  have "0.4 < 0.0001 * (4100 + fr)" using b by simp
  then have "0.4 / (4100 + fr) < 0.0001"
    using pos by (simp only: pos_divide_less_eq)
  then show ?thesis
    unfolding thorp_high_def Let_def assms by (rule thorp_high_upper_linear)
qed

lemma ratio_mono:
  fixes s1 s2 :: real
  assumes "0 \<le> s2" "s2 \<le> s1"
  shows "s2 / (1 + s2) \<le> s1 / (1 + s1)"
  using assms by (simp add: field_simps)

lemma thorp_quotient_mono:
  fixes a b :: real
  assumes "0 < a" "a \<le> b"
  shows "a\<^sup>2 / (4100 + a) \<le> b\<^sup>2 / (4100 + b)"
proof -
  have sq: "a\<^sup>2 \<le> b\<^sup>2" using assms by (simp add: power_mono)
  have "a * (a * b) \<le> b * (a * b)"
    using assms by (intro mult_right_mono) simp_all
  then have "a\<^sup>2 * b \<le> b\<^sup>2 * a" by (simp add: power2_eq_square mult_ac)
  then have "a\<^sup>2 * (4100 + b) \<le> b\<^sup>2 * (4100 + a)"
    using sq by (simp add: distrib_left)
  moreover have "0 < 4100 + a" "0 < 4100 + b" using assms by linarith+
  ultimately show ?thesis by (simp add: field_simps)
qed

lemma thorp_high_linear_mono:
  fixes x1 y1 z1 x2 y2 z2 :: real
  assumes "x1 \<le> x2" "y1 \<le> y2" "z1 \<le> z2"
  shows "(0.11 * x1 + 44 * y1 + (2.75 * (10 powi (- 4)) * z1 + 0.003)) / 1000
       \<le> (0.11 * x2 + 44 * y2 + (2.75 * (10 powi (- 4)) * z2 + 0.003)) / 1000"
  using assms by (simp add: power_int_minus)

lemma thorp_high_mono:
  assumes "0 < a" "a \<le> b"
  shows "thorp_high a \<le> thorp_high b"
proof -
  have sq: "a\<^sup>2 \<le> b\<^sup>2" using assms by (simp add: power_mono)
  have r: "a\<^sup>2 / (1 + a\<^sup>2) \<le> b\<^sup>2 / (1 + b\<^sup>2)"
    by (rule ratio_mono) (use sq in simp_all)
  have eq: "thorp_high x = (0.11 * (x\<^sup>2 / (1 + x\<^sup>2)) + 44 * (x\<^sup>2 / (4100 + x))
           + (2.75 * (10 powi (- 4)) * x\<^sup>2 + 0.003)) / 1000" for x
    by (simp add: thorp_high_def Let_def)
  show ?thesis
    unfolding eq by (rule thorp_high_linear_mono [OF r thorp_quotient_mono [OF assms] sq])
qed

lemma acoustic_perRF_returns:
  assumes "0 < fr" "0 \<le> ac_w self" "0 < d" "0 \<le> n"
  shows "\<exists>p. AcousticChannel_perRF self d fr Pt n nb = Inr p"
  using acoustic_per_values [OF assms(1,2)] assms(3,4) by blast

subsection \<open>Facts for the concrete instances\<close>

lemma exp_neg_range: "\<forall>x::real. 0 \<le> x \<longrightarrow> 0 \<le> exp (- x) \<and> exp (- x) \<le> 2"
proof (intro allI impI)
  fix x :: real assume "0 \<le> x"
  then have "exp (- x) \<le> 1" by simp
  moreover have "0 \<le> exp (- x)" by simp
  ultimately show "0 \<le> exp (- x) \<and> exp (- x) \<le> 2" by linarith
qed

lemma exp_neg_antitone: "\<forall>x y::real. 0 \<le> x \<and> x \<le> y \<longrightarrow> exp (- y) \<le> exp (- x)"
  by simp

lemma optical_snr_example:
  "OpticalChannel_snr (OpticalChannel_init 0 1 1 1 0 0 1 1 1 0) 0 x 0 0 = Inr 0"
  by (simp add: OpticalChannel_init_def OpticalChannel_snr_def K_def q_def Let_def
      py_bind_def py_div_def)

section \<open>Attempting a transmission\<close>

text \<open>
  C1, as the claim states it, fails on the arguments on which \<^verbatim>\<open>perRF\<close> raises: with
  distance 0, \<^verbatim>\<open>log10\<close> raises ValueError inside \<^verbatim>\<open>pathloss\<close>, the call of
  \<^verbatim>\<open>use\<close> ends with that error, and \<^verbatim>\<open>random()\<close> is never reached: no draw is
  consumed and no boolean is returned.
\<close>

theorem use_without_draw:
  "AcousticChannel_use \<lparr>ac_k = 2, ac_s = 0.5, ac_w = 0\<rparr> 10 100 0 10 (sconst 0.5)
     = (Inl ValueError, sconst 0.5)"
  by (simp add: AcousticChannel_use_def AcousticChannel_perRF_def pathloss_def log10_def
      py_bind_def Let_def)

text \<open>
  C1, amended. On every channel and every argument tuple on which \<^verbatim>\<open>perRF\<close> returns
  a PER, \<^verbatim>\<open>use\<close> consumes exactly one draw (the source is left at its tail) and
  returns true if and only if the drawn value is greater than or equal to that PER. When
  \<^verbatim>\<open>perRF\<close> raises, \<^verbatim>\<open>use\<close> raises the same error and leaves the random source as
  it was. The random source is the only state of the model.
\<close>

theorem use_one_draw:
  "(AcousticChannel_perRF ach distance frequency pw packetSize 2.35 = Inr per \<longrightarrow>
      AcousticChannel_use ach frequency pw distance packetSize src = (Inr (per \<le> shd src), stl src)) \<and>
   (AcousticChannel_perRF ach distance frequency pw packetSize 2.35 = Inl err \<longrightarrow>
      AcousticChannel_use ach frequency pw distance packetSize src = (Inl err, src)) \<and>
   (OpticalChannel_perRF och P dist' d beta psize = Inr per' \<longrightarrow>
      OpticalChannel_use och P dist' d beta psize src = (Inr (per' \<le> shd src), stl src)) \<and>
   (OpticalChannel_perRF och P dist' d beta psize = Inl err' \<longrightarrow>
      OpticalChannel_use och P dist' d beta psize src = (Inl err', src))"
  by (simp add: AcousticChannel_use_def OpticalChannel_use_def random_def not_less)

theorem use_one_draw_witness:
  "(\<exists>per. AcousticChannel_perRF \<lparr>ac_k = 2, ac_s = 0.5, ac_w = 0\<rparr> 1000 10 100 10 2.35 = Inr per \<and>
      AcousticChannel_use \<lparr>ac_k = 2, ac_s = 0.5, ac_w = 0\<rparr> 10 100 1000 10 (sconst 0.5)
        = (Inr (per \<le> 0.5), sconst 0.5)) \<and>
   AcousticChannel_use \<lparr>ac_k = 2, ac_s = 0.5, ac_w = 0\<rparr> 10 100 0 10 (sconst 0.5)
     = (Inl ValueError, sconst 0.5) \<and>
   OpticalChannel_use (OpticalChannel_init 0 1 1 1 0 0 1 1 1 0) 0 5 0 0 1 (sconst 0.5)
     = (Inr False, sconst 0.5) \<and>
   OpticalChannel_use (OpticalChannel_init 0 1 1 0 0 0 1 1 1 0) 0 5 0 0 1 (sconst 0.5)
     = (Inl ZeroDivisionError, sconst 0.5)"
proof -
  have ini: "AcousticChannel_init 2 0.5 0 = Inr \<lparr>ac_k = 2, ac_s = 0.5, ac_w = 0\<rparr>"
    by (simp add: AcousticChannel_init_def kvalues_def)
  obtain per where
    a: "AcousticChannel_perRF \<lparr>ac_k = 2, ac_s = 0.5, ac_w = 0\<rparr> 1000 10 100 10 2.35 = Inr per"
    using acoustic_perRF_returns [of 10 "\<lparr>ac_k = 2, ac_s = 0.5, ac_w = 0\<rparr>" 1000 10 100 "2.35"]
    by auto
  have b: "AcousticChannel_perRF \<lparr>ac_k = 2, ac_s = 0.5, ac_w = 0\<rparr> 0 10 100 10 2.35 = Inl ValueError"
    by (simp add: AcousticChannel_perRF_def pathloss_def log10_def py_bind_def Let_def)
  have c: "OpticalChannel_perRF (OpticalChannel_init 0 1 1 1 0 0 1 1 1 0) 0 5 0 0 1 = Inr (255 / 256)"
    using optical_per_values(2) [OF optical_snr_example [of 5], of 1]
    by (simp add: per_rayleigh_def power_divide)
  have d: "OpticalChannel_perRF (OpticalChannel_init 0 1 1 0 0 0 1 1 1 0) 0 5 0 0 1 = Inl ZeroDivisionError"
    by (simp add: OpticalChannel_perRF_def OpticalChannel_init_def py_bind_def py_div_def Let_def)
  have half: "\<not> (255 / 256 \<le> (0.5::real))" by simp
  from use_one_draw [of "\<lparr>ac_k = 2, ac_s = 0.5, ac_w = 0\<rparr>" 1000 10 100 10 per "sconst 0.5"]
    use_one_draw [of "\<lparr>ac_k = 2, ac_s = 0.5, ac_w = 0\<rparr>" 0 10 100 10 _ "sconst 0.5" ValueError]
    use_one_draw [of _ _ _ _ _ _ "sconst 0.5" _ "OpticalChannel_init 0 1 1 1 0 0 1 1 1 0" 0 5 0 0 1 "255 / 256"]
    use_one_draw [of _ _ _ _ _ _ "sconst 0.5" _ "OpticalChannel_init 0 1 1 0 0 0 1 1 1 0" 0 5 0 0 1 _ ZeroDivisionError]
    a b c d half
  show ?thesis by simp
qed

section \<open>Construction of an AcousticChannel\<close>

text \<open>
  C2. Construction succeeds, with the three values stored, for every \<open>k\<close> in
  {1.0, 1.5, 2.0}, every \<open>s\<close> with \<open>0 \<le> s \<le> 1\<close> and every \<open>w \<ge> 0\<close>. For any other
  \<open>k\<close>, for \<open>s < 0\<close>, \<open>s > 1\<close> or \<open>w < 0\<close> it raises AssertionError with a non-empty
  message, and no object is returned.
\<close>

theorem AcousticChannel_init_validation:
  "(k \<in> {1.0, 1.5, 2.0} \<and> 0 \<le> s \<and> s \<le> 1 \<and> 0 \<le> w \<longrightarrow>
      AcousticChannel_init k s w = Inr \<lparr>ac_k = k, ac_s = s, ac_w = w\<rparr>) \<and>
   (k \<notin> {1.0, 1.5, 2.0} \<or> s < 0 \<or> s > 1 \<or> w < 0 \<longrightarrow>
      (\<exists>msg. msg \<noteq> [] \<and> AcousticChannel_init k s w = Inl (AssertionError msg)))"
  by (auto simp: AcousticChannel_init_def kvalues_def)

theorem AcousticChannel_init_validation_witness:
  "AcousticChannel_init 1.5 0.5 3 = Inr \<lparr>ac_k = 1.5, ac_s = 0.5, ac_w = 3\<rparr> \<and>
   (\<exists>msg. msg \<noteq> [] \<and> AcousticChannel_init 3 0.5 3 = Inl (AssertionError msg)) \<and>
   (\<exists>msg. msg \<noteq> [] \<and> AcousticChannel_init 2 0.5 (- 1) = Inl (AssertionError msg))"
  using AcousticChannel_init_validation [of "1.5" "0.5" 3]
    AcousticChannel_init_validation [of 3 "0.5" 3]
    AcousticChannel_init_validation [of 2 "0.5" "- 1"]
  by simp

section \<open>The linear SNR of the acoustic channel\<close>

text \<open>
  C3. The claim is that \<^verbatim>\<open>AcousticChannel.snr\<close> returns \<open>10 ^ (snr_dB / 10)\<close>. The
  method does not: in the module's namespace the name \<^verbatim>\<open>size\<close> is unbound, so every
  call raises NameError before \<^verbatim>\<open>snr_dB\<close> is entered; and in a namespace that does
  bind \<^verbatim>\<open>size\<close> the method still returns no number, for lack of a \<^verbatim>\<open>return\<close>.
\<close>

theorem AcousticChannel_snr_raises:
  "AcousticChannel_snr module_env self distance frequency Pt psize noise_bw
     = Inl (NameError ''size'') \<and>
   (\<forall>env v. AcousticChannel_snr env self distance frequency Pt psize noise_bw \<noteq> Inr (Some v))"
  by (auto simp: AcousticChannel_snr_def module_env_def py_bind_def Let_def
      split: option.splits sum.splits)

section \<open>Monotonicity of the packet error rates\<close>

text \<open>
  C4. \<^verbatim>\<open>math.erfc\<close> enters as the parameter \<open>erfc\<close>, with the two facts about the
  complementary error function that the claim rests on: on the non-negative reals it
  takes values in \<open>[0, 2]\<close> and is non-increasing. Then:
  \<^item> on a validly constructed AcousticChannel, at a positive frequency, \<^verbatim>\<open>per\<close> and
    \<^verbatim>\<open>perRF\<close> return at all positive distances and non-negative packet sizes, and the
    value does not decrease when the distance grows, nor when the packet size grows;
  \<^item> on an OpticalChannel whose noise sum is positive (with \<open>R \<noteq> 0\<close>) and whose
    beam-spread divisor is positive at the smaller distance, \<^verbatim>\<open>per\<close> and \<^verbatim>\<open>perRF\<close>
    return at both distances and the value does not decrease when the distance grows;
    and wherever the SNR is a non-negative value, it does not decrease when the packet
    size grows.
\<close>

theorem per_monotone:
  assumes "\<forall>x. 0 \<le> x \<longrightarrow> 0 \<le> erfc x \<and> erfc x \<le> 2"
    and "\<forall>x y. 0 \<le> x \<and> x \<le> y \<longrightarrow> erfc y \<le> erfc x"
  shows
   "(AcousticChannel_init k s w = Inr ach \<and> 0 < frequency \<and> 0 < d1 \<and> d1 \<le> d2 \<and> 0 \<le> psize \<longrightarrow>
      (\<exists>p1 p2. AcousticChannel_per erfc ach d1 frequency Pt psize nb = Inr p1 \<and>
               AcousticChannel_per erfc ach d2 frequency Pt psize nb = Inr p2 \<and> p1 \<le> p2) \<and>
      (\<exists>p1 p2. AcousticChannel_perRF ach d1 frequency Pt psize nb = Inr p1 \<and>
               AcousticChannel_perRF ach d2 frequency Pt psize nb = Inr p2 \<and> p1 \<le> p2)) \<and>
    (AcousticChannel_init k s w = Inr ach \<and> 0 < frequency \<and> 0 < distance \<and> 0 \<le> n1 \<and> n1 \<le> n2 \<longrightarrow>
      (\<exists>p1 p2. AcousticChannel_per erfc ach distance frequency Pt n1 nb = Inr p1 \<and>
               AcousticChannel_per erfc ach distance frequency Pt n2 nb = Inr p2 \<and> p1 \<le> p2) \<and>
      (\<exists>p1 p2. AcousticChannel_perRF ach distance frequency Pt n1 nb = Inr p1 \<and>
               AcousticChannel_perRF ach distance frequency Pt n2 nb = Inr p2 \<and> p1 \<le> p2)) \<and>
    (0 < pi * d1\<^sup>2 * (1 - cos (oc_theta och)) + 2 * oc_At och \<and> oc_R och \<noteq> 0 \<and>
     0 < 2 * q * (oc_Id och + oc_Il och) * oc_bw och + 4 * K * oc_T och * oc_bw och / oc_R och \<and>
     0 < d1 \<and> d1 \<le> d2 \<and> 0 \<le> psize \<longrightarrow>
      (\<exists>p1 p2. OpticalChannel_per erfc och P d1 d beta psize = Inr p1 \<and>
               OpticalChannel_per erfc och P d2 d beta psize = Inr p2 \<and> p1 \<le> p2) \<and>
      (\<exists>p1 p2. OpticalChannel_perRF och P d1 d beta psize = Inr p1 \<and>
               OpticalChannel_perRF och P d2 d beta psize = Inr p2 \<and> p1 \<le> p2)) \<and>
    (OpticalChannel_snr och P distance d beta = Inr snr \<and> 0 \<le> snr \<and> 0 \<le> n1 \<and> n1 \<le> n2 \<longrightarrow>
      (\<exists>p1 p2. OpticalChannel_per erfc och P distance d beta n1 = Inr p1 \<and>
               OpticalChannel_per erfc och P distance d beta n2 = Inr p2 \<and> p1 \<le> p2) \<and>
      (\<exists>p1 p2. OpticalChannel_perRF och P distance d beta n1 = Inr p1 \<and>
               OpticalChannel_perRF och P distance d beta n2 = Inr p2 \<and> p1 \<le> p2))"
  by (intro conjI acoustic_distance_mono [OF assms] acoustic_psize_mono [OF assms(1)]
      optical_distance_mono [OF assms] optical_psize_mono [OF assms(1)])

theorem per_monotone_witness:
  "((\<exists>p1 p2. AcousticChannel_per (\<lambda>x. exp (- x)) \<lparr>ac_k = 2, ac_s = 0.5, ac_w = 0\<rparr> 1000 10 100 10 2.35 = Inr p1 \<and>
             AcousticChannel_per (\<lambda>x. exp (- x)) \<lparr>ac_k = 2, ac_s = 0.5, ac_w = 0\<rparr> 2000 10 100 10 2.35 = Inr p2 \<and> p1 \<le> p2) \<and>
    (\<exists>p1 p2. AcousticChannel_perRF \<lparr>ac_k = 2, ac_s = 0.5, ac_w = 0\<rparr> 1000 10 100 10 2.35 = Inr p1 \<and>
             AcousticChannel_perRF \<lparr>ac_k = 2, ac_s = 0.5, ac_w = 0\<rparr> 2000 10 100 10 2.35 = Inr p2 \<and> p1 \<le> p2)) \<and>
   ((\<exists>p1 p2. AcousticChannel_per (\<lambda>x. exp (- x)) \<lparr>ac_k = 2, ac_s = 0.5, ac_w = 0\<rparr> 1000 10 100 10 2.35 = Inr p1 \<and>
             AcousticChannel_per (\<lambda>x. exp (- x)) \<lparr>ac_k = 2, ac_s = 0.5, ac_w = 0\<rparr> 1000 10 100 20 2.35 = Inr p2 \<and> p1 \<le> p2) \<and>
    (\<exists>p1 p2. AcousticChannel_perRF \<lparr>ac_k = 2, ac_s = 0.5, ac_w = 0\<rparr> 1000 10 100 10 2.35 = Inr p1 \<and>
             AcousticChannel_perRF \<lparr>ac_k = 2, ac_s = 0.5, ac_w = 0\<rparr> 1000 10 100 20 2.35 = Inr p2 \<and> p1 \<le> p2)) \<and>
   ((\<exists>p1 p2. OpticalChannel_per (\<lambda>x. exp (- x)) (OpticalChannel_init 0 1 1 1 0 0 1 1 1 0) 0 1000 0 0 10 = Inr p1 \<and>
             OpticalChannel_per (\<lambda>x. exp (- x)) (OpticalChannel_init 0 1 1 1 0 0 1 1 1 0) 0 2000 0 0 10 = Inr p2 \<and> p1 \<le> p2) \<and>
    (\<exists>p1 p2. OpticalChannel_perRF (OpticalChannel_init 0 1 1 1 0 0 1 1 1 0) 0 1000 0 0 10 = Inr p1 \<and>
             OpticalChannel_perRF (OpticalChannel_init 0 1 1 1 0 0 1 1 1 0) 0 2000 0 0 10 = Inr p2 \<and> p1 \<le> p2)) \<and>
   ((\<exists>p1 p2. OpticalChannel_per (\<lambda>x. exp (- x)) (OpticalChannel_init 0 1 1 1 0 0 1 1 1 0) 0 1000 0 0 10 = Inr p1 \<and>
             OpticalChannel_per (\<lambda>x. exp (- x)) (OpticalChannel_init 0 1 1 1 0 0 1 1 1 0) 0 1000 0 0 20 = Inr p2 \<and> p1 \<le> p2) \<and>
    (\<exists>p1 p2. OpticalChannel_perRF (OpticalChannel_init 0 1 1 1 0 0 1 1 1 0) 0 1000 0 0 10 = Inr p1 \<and>
             OpticalChannel_perRF (OpticalChannel_init 0 1 1 1 0 0 1 1 1 0) 0 1000 0 0 20 = Inr p2 \<and> p1 \<le> p2))"
proof -
  have ini: "AcousticChannel_init 2 0.5 0 = Inr \<lparr>ac_k = 2, ac_s = 0.5, ac_w = 0\<rparr>"
    by (simp add: AcousticChannel_init_def kvalues_def)
  have opt: "0 < pi * 1000\<^sup>2 * (1 - cos (oc_theta (OpticalChannel_init 0 1 1 1 0 0 1 1 1 0)))
                 + 2 * oc_At (OpticalChannel_init 0 1 1 1 0 0 1 1 1 0)"
    "oc_R (OpticalChannel_init 0 1 1 1 0 0 1 1 1 0) \<noteq> 0"
    "0 < 2 * q * (oc_Id (OpticalChannel_init 0 1 1 1 0 0 1 1 1 0) + oc_Il (OpticalChannel_init 0 1 1 1 0 0 1 1 1 0))
           * oc_bw (OpticalChannel_init 0 1 1 1 0 0 1 1 1 0)
         + 4 * K * oc_T (OpticalChannel_init 0 1 1 1 0 0 1 1 1 0) * oc_bw (OpticalChannel_init 0 1 1 1 0 0 1 1 1 0)
             / oc_R (OpticalChannel_init 0 1 1 1 0 0 1 1 1 0)"
    by (simp_all add: OpticalChannel_init_def K_def q_def)
  show ?thesis
    using per_monotone [OF exp_neg_range exp_neg_antitone,
        of 2 "0.5" 0 "\<lparr>ac_k = 2, ac_s = 0.5, ac_w = 0\<rparr>" 10 1000 2000 10 100 "2.35" 1000 10 20
           "OpticalChannel_init 0 1 1 1 0 0 1 1 1 0" 0 0 0 0]
      ini opt optical_snr_example [of 1000]
    by simp
qed

section \<open>The packet error rates are probabilities\<close>

text \<open>
  C5. With \<^verbatim>\<open>math.erfc\<close> taking values in \<open>[0, 2]\<close> on the non-negative reals:
  on a validly constructed AcousticChannel, at a positive distance and frequency (the
  linear SNR \<open>10 ^ (snrdB / 10)\<close> is then positive) and a non-negative packet size,
  \<^verbatim>\<open>per\<close> and \<^verbatim>\<open>perRF\<close> return a value in \<open>[0, 1]\<close>; on an OpticalChannel, whenever
  \<^verbatim>\<open>snr\<close> returns a non-negative value and the packet size is non-negative, \<^verbatim>\<open>per\<close>
  and \<^verbatim>\<open>perRF\<close> return a value in \<open>[0, 1]\<close>.
\<close>

theorem per_in_unit_interval:
  assumes "\<forall>x. 0 \<le> x \<longrightarrow> 0 \<le> erfc x \<and> erfc x \<le> 2"
  shows
   "(AcousticChannel_init k s w = Inr ach \<and> 0 < distance \<and> 0 < frequency \<and> 0 \<le> psize \<longrightarrow>
      (\<exists>p. AcousticChannel_per erfc ach distance frequency Pt psize nb = Inr p \<and> 0 \<le> p \<and> p \<le> 1) \<and>
      (\<exists>p. AcousticChannel_perRF ach distance frequency Pt psize nb = Inr p \<and> 0 \<le> p \<and> p \<le> 1)) \<and>
    (OpticalChannel_snr och P dist' d beta = Inr snr \<and> 0 \<le> snr \<and> 0 \<le> psize \<longrightarrow>
      (\<exists>p. OpticalChannel_per erfc och P dist' d beta psize = Inr p \<and> 0 \<le> p \<and> p \<le> 1) \<and>
      (\<exists>p. OpticalChannel_perRF och P dist' d beta psize = Inr p \<and> 0 \<le> p \<and> p \<le> 1))"
proof (intro conjI impI; elim conjE)
  assume h: "AcousticChannel_init k s w = Inr ach" "0 < distance" "0 < frequency" "0 \<le> psize"
  note v = init_valid [OF h(1)]
  obtain t N where tN: "0 < t"
    "\<forall>d Pt n nb. 0 < d \<and> 0 \<le> n \<longrightarrow>
        AcousticChannel_per erfc ach d frequency Pt n nb =
          Inr (per_awgn erfc (10 powr ((Pt - (10 * ac_k ach * log 10 d + d * t) - nb * N) / 10)) n) \<and>
        AcousticChannel_perRF ach d frequency Pt n nb =
          Inr (per_rayleigh (10 powr ((Pt - (10 * ac_k ach * log 10 d + d * t) - nb * N) / 10)) n)"
    using acoustic_per_values [OF h(3) v(2)] by blast
  let ?s = "10 powr ((Pt - (10 * ac_k ach * log 10 distance + distance * t) - nb * N) / 10)"
  have nn: "0 \<le> ?s" by simp
  have e1: "AcousticChannel_per erfc ach distance frequency Pt psize nb = Inr (per_awgn erfc ?s psize)"
    "AcousticChannel_perRF ach distance frequency Pt psize nb = Inr (per_rayleigh ?s psize)"
    using tN(2) h(2,4) by blast+
  show "\<exists>p. AcousticChannel_per erfc ach distance frequency Pt psize nb = Inr p \<and> 0 \<le> p \<and> p \<le> 1"
    using e1(1) per_awgn_range [OF assms nn] by blast
  show "\<exists>p. AcousticChannel_perRF ach distance frequency Pt psize nb = Inr p \<and> 0 \<le> p \<and> p \<le> 1"
    using e1(2) per_rayleigh_range [OF nn] by blast
next
  assume h: "OpticalChannel_snr och P dist' d beta = Inr snr" "0 \<le> snr" "0 \<le> psize"
  show "\<exists>p. OpticalChannel_per erfc och P dist' d beta psize = Inr p \<and> 0 \<le> p \<and> p \<le> 1"
    using optical_per_values(1) [OF h] per_awgn_range [OF assms h(2)] by blast
  show "\<exists>p. OpticalChannel_perRF och P dist' d beta psize = Inr p \<and> 0 \<le> p \<and> p \<le> 1"
    using optical_per_values(2) [OF h] per_rayleigh_range [OF h(2)] by blast
qed

theorem per_in_unit_interval_witness:
  "((\<exists>p. AcousticChannel_per (\<lambda>x. exp (- x)) \<lparr>ac_k = 2, ac_s = 0.5, ac_w = 0\<rparr> 1000 10 100 10 2.35 = Inr p \<and> 0 \<le> p \<and> p \<le> 1) \<and>
    (\<exists>p. AcousticChannel_perRF \<lparr>ac_k = 2, ac_s = 0.5, ac_w = 0\<rparr> 1000 10 100 10 2.35 = Inr p \<and> 0 \<le> p \<and> p \<le> 1)) \<and>
   ((\<exists>p. OpticalChannel_per (\<lambda>x. exp (- x)) (OpticalChannel_init 0 1 1 1 0 0 1 1 1 0) 0 5 0 0 10 = Inr p \<and> 0 \<le> p \<and> p \<le> 1) \<and>
    (\<exists>p. OpticalChannel_perRF (OpticalChannel_init 0 1 1 1 0 0 1 1 1 0) 0 5 0 0 10 = Inr p \<and> 0 \<le> p \<and> p \<le> 1))"
proof -
  have ini: "AcousticChannel_init 2 0.5 0 = Inr \<lparr>ac_k = 2, ac_s = 0.5, ac_w = 0\<rparr>"
    by (simp add: AcousticChannel_init_def kvalues_def)
  show ?thesis
    using per_in_unit_interval [OF exp_neg_range,
        of 2 "0.5" 0 "\<lparr>ac_k = 2, ac_s = 0.5, ac_w = 0\<rparr>" 1000 10 10 100 "2.35"
           "OpticalChannel_init 0 1 1 1 0 0 1 1 1 0" 0 5 0 0 0]
      ini optical_snr_example [of 5]
    by simp
qed

section \<open>Thorp's attenuation\<close>

text \<open>
  C6, as the claim states it, fails at the frequency -4100: there \<open>frequency\<^sup>2 > 0.4\<close>
  selects the high branch, whose divisor \<open>4100 + frequency\<close> is zero, and the call
  raises ZeroDivisionError instead of returning a value.
\<close>

theorem thorp_zero_divisor:
  "thorp (- 4100) = Inl ZeroDivisionError"
  by (simp add: thorp_eq)

text \<open>
  C6, amended. For every frequency other than -4100, with \<open>f = frequency\<^sup>2\<close>,
  \<open>thorp\<close> returns \<open>(0.11 f / (1 + f) + 44 f / (4100 + frequency) + 2.75e-4 f + 0.003) / 1000\<close>
  when \<open>f > 0.4\<close>, and \<open>(0.002 + 0.11 f / (1 + f) + 0.011 f) / 1000\<close> otherwise.
\<close>

theorem thorp_formula:
  "frequency \<noteq> - 4100 \<longrightarrow>
   thorp frequency =
     Inr (if frequency\<^sup>2 > 0.4
          then (0.11 * frequency\<^sup>2 / (1 + frequency\<^sup>2) + 44 * frequency\<^sup>2 / (4100 + frequency)
                 + 0.000275 * frequency\<^sup>2 + 0.003) / 1000
          else (0.002 + 0.11 * frequency\<^sup>2 / (1 + frequency\<^sup>2) + 0.011 * frequency\<^sup>2) / 1000)"
  by (simp add: thorp_eq)

theorem thorp_formula_witness:
  "thorp 1 = Inr ((0.11 / 2 + 44 / 4101 + 0.000275 + 0.003) / 1000) \<and>
   thorp 0.5 = Inr ((0.002 + 0.11 * 0.25 / 1.25 + 0.011 * 0.25) / 1000)"
  using thorp_formula [of 1] thorp_formula [of "0.5"]
  by (simp add: power2_eq_square)

section \<open>The SNR of the optical channel\<close>

text \<open>
  C7, as the claim states it, fails on a channel built with shunt resistance \<open>R = 0\<close>
  (construction checks nothing): \<open>4 K T bw / R\<close> raises ZeroDivisionError and no SNR is
  returned.
\<close>

theorem OpticalChannel_snr_zero_divisor:
  "OpticalChannel_snr (OpticalChannel_init 0 1 1 0 0 0 1 1 1 0) 1 0 0 0 = Inl ZeroDivisionError"
  by (simp add: OpticalChannel_snr_def OpticalChannel_init_def Let_def py_bind_def py_div_def)

text \<open>
  C7, amended. Whenever the three divisors are non-zero (the beam-spread term
  \<open>\<pi> distance\<^sup>2 (1 - cos \<theta>) + 2 At\<close>, the resistance \<open>R\<close> and the noise sum
  \<open>currentNoise + thermalNoise\<close>), \<open>snr\<close> returns \<open>(S p)\<^sup>2 / (currentNoise + thermalNoise)\<close>
  with \<open>p = 2 P Ar cos \<beta> / (\<pi> distance\<^sup>2 (1 - cos \<theta>) + 2 At) \<sqdot> e\<^bsup>-c d\<^esup>\<close>,
  \<open>thermalNoise = 4 K T bw / R\<close> and \<open>currentNoise = 2 q (Id + Il) bw\<close>; when one of them
  is zero it raises ZeroDivisionError.
\<close>

theorem OpticalChannel_snr_formula:
  "(pi * distance\<^sup>2 * (1 - cos (oc_theta self)) + 2 * oc_At self \<noteq> 0 \<and> oc_R self \<noteq> 0 \<and>
    2 * q * (oc_Id self + oc_Il self) * oc_bw self
      + 4 * K * oc_T self * oc_bw self / oc_R self \<noteq> 0 \<longrightarrow>
    OpticalChannel_snr self P distance d beta =
      Inr ((oc_S self *
             (2 * P * oc_Ar self * cos beta /
                (pi * distance\<^sup>2 * (1 - cos (oc_theta self)) + 2 * oc_At self)
              * exp (- oc_c self * d)))\<^sup>2 /
           (2 * q * (oc_Id self + oc_Il self) * oc_bw self
             + 4 * K * oc_T self * oc_bw self / oc_R self))) \<and>
   (pi * distance\<^sup>2 * (1 - cos (oc_theta self)) + 2 * oc_At self = 0 \<or> oc_R self = 0 \<or>
    2 * q * (oc_Id self + oc_Il self) * oc_bw self
      + 4 * K * oc_T self * oc_bw self / oc_R self = 0 \<longrightarrow>
    OpticalChannel_snr self P distance d beta = Inl ZeroDivisionError)"
  by (simp add: OpticalChannel_snr_def Let_def py_bind_def py_div_def e_powr)

theorem OpticalChannel_snr_formula_witness:
  "OpticalChannel_snr (OpticalChannel_init 0 1 1 1 0 0 1 1 1 0) 1 0 0 0 = Inr (1 / (4 * K)) \<and>
   OpticalChannel_snr (OpticalChannel_init 0 1 1 1 0 0 1 0 1 0) 1 0 0 0 = Inl ZeroDivisionError"
  using OpticalChannel_snr_formula [of 0 "OpticalChannel_init 0 1 1 1 0 0 1 1 1 0" 1 0 0]
    OpticalChannel_snr_formula [of 0 "OpticalChannel_init 0 1 1 1 0 0 1 0 1 0" 1 0 0]
  by (simp add: OpticalChannel_init_def K_def q_def)

section \<open>The branch boundary of Thorp's attenuation\<close>

text \<open>
  C8, as the claim states it, fails: at the frequency \<open>sqrt 0.4\<close>, on the boundary,
  the high-branch value exceeds the low-branch value by more than \<open>1 / 10 ^ 6\<close>, which is
  more than one fortieth (2.5 percent) of the high-branch value itself. No
  floating-point tolerance covers that.
\<close>

theorem thorp_branches_disagree:
  "(sqrt 0.4)\<^sup>2 = 0.4 \<and>
   thorp_low (sqrt 0.4) + 1 / 10 ^ 6 < thorp_high (sqrt 0.4) \<and>
   thorp_high (sqrt 0.4) / 40 < thorp_high (sqrt 0.4) - thorp_low (sqrt 0.4)"
proof -
  have sq: "(sqrt 0.4)\<^sup>2 = 0.4" by simp
  have "thorp_high (sqrt 0.4) / 40 < 1 / 10 ^ 6"
    using thorp_high_boundary_upper [OF sq] by simp
  then show ?thesis
    using sq thorp_branch_gap [OF sq] by linarith
qed

text \<open>
  C8, amended. \<^verbatim>\<open>thorp\<close> jumps at the branch boundary. At every frequency with
  \<open>frequency\<^sup>2 = 0.4\<close> the call takes the low branch, and the high-branch value there
  is larger than the low-branch value by more than \<open>1 / 10 ^ 6\<close> (more than 2.5 percent of
  the high-branch value). At the positive boundary frequency, every larger frequency
  \<open>g\<close> gives \<open>thorp g > thorp frequency + 1 / 10 ^ 6\<close>.
\<close>

theorem thorp_boundary_jump:
  "frequency\<^sup>2 = 0.4 \<longrightarrow>
     thorp frequency = Inr (thorp_low frequency) \<and>
     thorp_low frequency + 1 / 10 ^ 6 < thorp_high frequency \<and>
     thorp_high frequency / 40 < thorp_high frequency - thorp_low frequency \<and>
     (\<forall>g. 0 < frequency \<and> frequency < g \<longrightarrow>
        (\<exists>v. thorp g = Inr v \<and> thorp_low frequency + 1 / 10 ^ 6 < v))"
proof (intro impI conjI allI)
  assume b: "frequency\<^sup>2 = 0.4"
  show "thorp frequency = Inr (thorp_low frequency)"
    using b by (simp add: thorp_branches)
  show gap: "thorp_low frequency + 1 / 10 ^ 6 < thorp_high frequency"
    using thorp_branch_gap [OF b] .
  have "thorp_high frequency / 40 < 1 / 10 ^ 6"
    using thorp_high_boundary_upper [OF b] by simp
  then show "thorp_high frequency / 40 < thorp_high frequency - thorp_low frequency"
    using gap by linarith
  fix g
  assume h: "0 < frequency \<and> frequency < g"
  then have "frequency\<^sup>2 < g\<^sup>2" by (simp add: power_strict_mono)
  then have "g\<^sup>2 > 0.4" using b by simp
  moreover have "g \<noteq> - 4100" using h by linarith
  ultimately have "thorp g = Inr (thorp_high g)" by (simp add: thorp_branches)
  moreover have "thorp_high frequency \<le> thorp_high g"
    using thorp_high_mono [of frequency g] h by simp
  ultimately show "\<exists>v. thorp g = Inr v \<and> thorp_low frequency + 1 / 10 ^ 6 < v"
    using gap by auto
qed

theorem thorp_boundary_jump_witness:
  "thorp (sqrt 0.4) = Inr (thorp_low (sqrt 0.4)) \<and>
   thorp_low (sqrt 0.4) + 1 / 10 ^ 6 < thorp_high (sqrt 0.4) \<and>
   (\<exists>v. thorp 1 = Inr v \<and> thorp_low (sqrt 0.4) + 1 / 10 ^ 6 < v)"
proof -
  have sq: "(sqrt 0.4)\<^sup>2 = 0.4" by simp
  have pos: "0 < sqrt 0.4 \<and> sqrt 0.4 < 1" by (simp add: real_less_lsqrt real_less_rsqrt)
  show ?thesis
    using thorp_boundary_jump [of "sqrt 0.4"] sq pos by blast
qed

section \<open>Packets of size zero\<close>

text \<open>
  C9, as the claim states it, fails for a finite negative SNR. An OpticalChannel is
  constructed without validation; with dark current \<open>Id = -1\<close> the noise sum is negative,
  \<^verbatim>\<open>snr\<close> returns \<open>-1/32\<close>, and \<^verbatim>\<open>perRF\<close> with \<open>psize = 0\<close> raises ValueError at
  the square root of \<open>snr / (1 + snr)\<close> instead of returning 0 (as \<^verbatim>\<open>per\<close> does at the
  square root of \<open>snr\<close>).
\<close>

theorem per_zero_psize_negative_snr:
  "OpticalChannel_snr (OpticalChannel_init 0 0 (1 / 10 ^ 10) 1 (- 1) 0 1 1 1 0) 1 0 0 0 = Inr (- 1 / 32) \<and>
   OpticalChannel_perRF (OpticalChannel_init 0 0 (1 / 10 ^ 10) 1 (- 1) 0 1 1 1 0) 1 0 0 0 0 = Inl ValueError"
proof -
  have s: "OpticalChannel_snr (OpticalChannel_init 0 0 (1 / 10 ^ 10) 1 (- 1) 0 1 1 1 0) 1 0 0 0 = Inr (- 1 / 32)"
    by (simp add: OpticalChannel_snr_def OpticalChannel_init_def K_def q_def Let_def py_bind_def
        py_div_def e_def power_divide)
  show ?thesis
    unfolding optical_perRF_bind s
    by (simp add: py_bind_def py_div_def py_sqrt_def)
qed

text \<open>
  C9, amended. With \<open>psize = 0\<close>, \<^verbatim>\<open>per\<close> and \<^verbatim>\<open>perRF\<close> return exactly 0 on a
  validly constructed AcousticChannel at every positive distance and frequency, and on
  an OpticalChannel whenever \<^verbatim>\<open>snr\<close> returns a non-negative value.
\<close>

theorem per_zero_psize:
  "(AcousticChannel_init k s w = Inr ach \<and> 0 < distance \<and> 0 < frequency \<longrightarrow>
      AcousticChannel_per erfc ach distance frequency Pt 0 nb = Inr 0 \<and>
      AcousticChannel_perRF ach distance frequency Pt 0 nb = Inr 0) \<and>
   (OpticalChannel_snr och P dist' d beta = Inr snr \<and> 0 \<le> snr \<longrightarrow>
      OpticalChannel_per erfc och P dist' d beta 0 = Inr 0 \<and>
      OpticalChannel_perRF och P dist' d beta 0 = Inr 0)"
proof (intro conjI impI; elim conjE)
  assume h: "AcousticChannel_init k s w = Inr ach" "0 < distance" "0 < frequency"
  note v = init_valid [OF h(1)]
  obtain t N where tN: "0 < t"
    "\<forall>d Pt n nb. 0 < d \<and> 0 \<le> n \<longrightarrow>
        AcousticChannel_per erfc ach d frequency Pt n nb =
          Inr (per_awgn erfc (10 powr ((Pt - (10 * ac_k ach * log 10 d + d * t) - nb * N) / 10)) n) \<and>
        AcousticChannel_perRF ach d frequency Pt n nb =
          Inr (per_rayleigh (10 powr ((Pt - (10 * ac_k ach * log 10 d + d * t) - nb * N) / 10)) n)"
    using acoustic_per_values [OF h(3) v(2)] by blast
  have z: "(0::int) \<le> 0" by simp
  show "AcousticChannel_per erfc ach distance frequency Pt 0 nb = Inr 0"
    using tN(2) h(2) z by (simp add: per_awgn_def)
  show "AcousticChannel_perRF ach distance frequency Pt 0 nb = Inr 0"
    using tN(2) h(2) z by (simp add: per_rayleigh_def)
next
  assume h: "OpticalChannel_snr och P dist' d beta = Inr snr" "0 \<le> snr"
  show "OpticalChannel_per erfc och P dist' d beta 0 = Inr 0"
    using optical_per_values(1) [OF h, of 0 erfc] by (simp add: per_awgn_def)
  show "OpticalChannel_perRF och P dist' d beta 0 = Inr 0"
    using optical_per_values(2) [OF h, of 0] by (simp add: per_rayleigh_def)
qed

theorem per_zero_psize_witness:
  "(AcousticChannel_per (\<lambda>x. exp (- x)) \<lparr>ac_k = 2, ac_s = 0.5, ac_w = 0\<rparr> 1000 10 100 0 2.35 = Inr 0 \<and>
    AcousticChannel_perRF \<lparr>ac_k = 2, ac_s = 0.5, ac_w = 0\<rparr> 1000 10 100 0 2.35 = Inr 0) \<and>
   (OpticalChannel_per (\<lambda>x. exp (- x)) (OpticalChannel_init 0 1 1 1 0 0 1 1 1 0) 0 5 0 0 0 = Inr 0 \<and>
    OpticalChannel_perRF (OpticalChannel_init 0 1 1 1 0 0 1 1 1 0) 0 5 0 0 0 = Inr 0)"
proof -
  have ini: "AcousticChannel_init 2 0.5 0 = Inr \<lparr>ac_k = 2, ac_s = 0.5, ac_w = 0\<rparr>"
    by (simp add: AcousticChannel_init_def kvalues_def)
  show ?thesis
    using per_zero_psize [of 2 "0.5" 0 "\<lparr>ac_k = 2, ac_s = 0.5, ac_w = 0\<rparr>" 1000 10 "\<lambda>x. exp (- x)" 100 "2.35"
           "OpticalChannel_init 0 1 1 1 0 0 1 1 1 0" 0 5 0 0 0]
      ini optical_snr_example [of 5]
    by simp
qed

section \<open>The packet error rates of the optical channel reuse the SNR\<close>

text \<open>
  C10. \<^verbatim>\<open>OpticalChannel.per\<close> and \<^verbatim>\<open>perRF\<close> repeat the body of \<^verbatim>\<open>snr\<close>: each is
  \<^verbatim>\<open>snr\<close> on the same \<open>P, distance, d, beta\<close> (the same value, or the same error),
  followed by the bit error rate and the aggregation over \<open>8 psize\<close> bits. So, where
  \<^verbatim>\<open>snr\<close> returns a non-negative value and \<open>psize\<close> is a non-negative integer,
  \<open>per = 1 - (1 - 0.5 erfc (sqrt snr)) ^ (8 psize)\<close> and
  \<open>perRF = 1 - (1 - 0.5 (1 - sqrt (snr / (1 + snr)))) ^ (8 psize)\<close>.
\<close>

theorem OpticalChannel_per_uses_snr:
  "OpticalChannel_per erfc self P distance d beta psize =
     py_bind (OpticalChannel_snr self P distance d beta) (\<lambda>snr.
     py_bind (py_sqrt snr) (\<lambda>r.
     py_bind (py_pow (1 - 0.5 * erfc r) (8 * psize)) (\<lambda>pw. Inr (1 - pw)))) \<and>
   OpticalChannel_perRF self P distance d beta psize =
     py_bind (OpticalChannel_snr self P distance d beta) (\<lambda>snr.
     py_bind (py_div snr (1 + snr)) (\<lambda>ratio.
     py_bind (py_sqrt ratio) (\<lambda>r.
     py_bind (py_pow (1 - 0.5 * (1 - r)) (8 * psize)) (\<lambda>pw. Inr (1 - pw))))) \<and>
   (OpticalChannel_snr self P distance d beta = Inr snr \<and> 0 \<le> snr \<and> 0 \<le> psize \<longrightarrow>
      OpticalChannel_per erfc self P distance d beta psize =
        Inr (1 - (1 - 0.5 * erfc (sqrt snr)) ^ nat (8 * psize)) \<and>
      OpticalChannel_perRF self P distance d beta psize =
        Inr (1 - (1 - 0.5 * (1 - sqrt (snr / (1 + snr)))) ^ nat (8 * psize)))"
  by (auto simp add: OpticalChannel_per_def OpticalChannel_perRF_def OpticalChannel_snr_def
      Let_def py_bind_def py_sqrt_def py_div_def py_pow_def split: sum.splits)

theorem OpticalChannel_per_uses_snr_witness:
  "OpticalChannel_snr (OpticalChannel_init 0 1 1 1 0 0 1 1 1 0) 0 0 0 0 = Inr 0 \<and>
   OpticalChannel_per (\<lambda>x. exp (- x)) (OpticalChannel_init 0 1 1 1 0 0 1 1 1 0) 0 0 0 0 1
     = Inr (1 - (1 / 2) ^ 8) \<and>
   OpticalChannel_perRF (OpticalChannel_init 0 1 1 1 0 0 1 1 1 0) 0 0 0 0 1
     = Inr (1 - (1 / 2) ^ 8)"
  using OpticalChannel_per_uses_snr
    [of "\<lambda>x. exp (- x)" "OpticalChannel_init 0 1 1 1 0 0 1 1 1 0" 0 0 0 0 1 0]
  by (simp add: OpticalChannel_init_def OpticalChannel_snr_def K_def q_def Let_def
      py_bind_def py_div_def py_sqrt_def py_pow_def)

end
